theory Spec2Isabelle
  imports Complex_Main "HOL-Library.Multiset"
begin

section \<open>Python values, errors and the world outside the object\<close>

text \<open>
  The development embeds \<^verbatim>\<open>retrieval/BM25Retrieval.py\<close>: the class
  \<^verbatim>\<open>BM25_PLUS\<close> with its methods \<^verbatim>\<open>get_sparse_embedding\<close>,
  \<^verbatim>\<open>retrieve\<close>, \<^verbatim>\<open>get_relevant_doc\<close> and
  \<^verbatim>\<open>get_relevant_doc_bulk\<close>.

  A Python \<^verbatim>\<open>str\<close> is a \<^typ>\<open>string\<close>; one \<^typ>\<open>char\<close> stands for one character
  of the Python string. Scores are NumPy \<^verbatim>\<open>float64\<close> values and are modelled as
  \<^typ>\<open>real\<close>: rounding is not modelled, and neither is NaN (see \<open>get_scores\<close> below).
  Every exception the code can raise is a value of \<open>error\<close>; a method returns
  \<open>Inl\<close> of the error it raised or \<open>Inr\<close> of its result, together with the world it
  leaves behind. \<^verbatim>\<open>print\<close>, \<^verbatim>\<open>tqdm\<close> and the \<^verbatim>\<open>timer\<close> context
  manager only report progress and are left out.
\<close>

type_synonym token = string
type_synonym path = string

text \<open>The two \<^verbatim>\<open>assert\<close> statements of the file: line 96 and lines 152/198.\<close>

datatype assertion = IndexNotBuilt | ZeroScoreSum

datatype error =
    AssertionError assertion
  | AttributeError
  | TypeError
  | KeyError string
  | IndexError
  | ZeroDivisionError
  | FileNotFoundError
  | UnpicklingError

text \<open>
  The \<^verbatim>\<open>rank_bm25.BM25Plus\<close> object: the attributes its constructor sets. The
  parameters \<^verbatim>\<open>k1\<close>, \<^verbatim>\<open>b\<close> and \<^verbatim>\<open>delta\<close> keep the library's
  defaults, since the source passes only the corpus.
\<close>

record bm25_plus =
  corpus_size :: nat
  avgdl :: real
  doc_freqs :: "(token \<rightharpoonup> nat) list"
  idf :: "token \<rightharpoonup> real"
  doc_len :: "nat list"

definition bm25_k1 :: real where
  "bm25_k1 = 3 / 2"

definition bm25_b :: real where
  "bm25_b = 3 / 4"

definition bm25_delta :: real where
  "bm25_delta = 1"

text \<open>
  The objects the program pickles and may therefore find again in a cache file: the
  index, the list of top-k score arrays and the list of top-k index arrays.
\<close>

datatype pyobj =
    BM25 bm25_plus
  | ScoreArrays "real list list"
  | IndexArrays "int list list"

text \<open>
  A file holds either the complete pickle of an object, or bytes that are no complete
  pickle: the empty file that \<^verbatim>\<open>open(path, "wb")\<close> leaves before anything is
  written, or a truncated one.
\<close>

datatype file_content = Pickle pyobj | Truncated

text \<open>
  What the methods do to the outside, in order: calls of the tokenizer, calls of
  \<^verbatim>\<open>bm25.get_scores\<close>, and file operations.
\<close>

datatype event =
    Tokenize string
  | GetScores "token list"
  | OpenRead path
  | OpenWrite path
  | Dump path pyobj

record world =
  fs :: "path \<rightharpoonup> file_content"
  trace :: "event list"

text \<open>
  The attributes of a \<^verbatim>\<open>BM25_PLUS\<close> instance that the methods read.
  \<^verbatim>\<open>wiki_text\<close> and \<^verbatim>\<open>wiki_title\<close> come from the base class's
  \<^verbatim>\<open>wiki_dataset\<close>, which is not part of this file; they are taken as given.
  \<open>bm25 = None\<close> is the Python \<^verbatim>\<open>None\<close> that \<^verbatim>\<open>__init__\<close> assigns.
\<close>

record BM25_PLUS =
  wiki_text :: "string list"
  wiki_title :: "string list"
  data_path :: path
  tokenize_fn :: "string \<Rightarrow> token list"
  bm25 :: "pyobj option"

section \<open>Library operations\<close>

subsection \<open>Lists, slices and paths\<close>

text \<open>
  \<^verbatim>\<open>xs[i]\<close> on a list of length \<open>n\<close>: positions \<open>0\<close> to \<open>n - 1\<close> are read
  as they are, positions \<open>-n\<close> to \<open>-1\<close> are read from the end, anything else raises.
\<close>

definition py_index :: "'a list \<Rightarrow> int \<Rightarrow> error + 'a" where
  "py_index xs i =
     (if 0 \<le> i \<and> i < int (length xs) then Inr (xs ! nat i)
      else if - int (length xs) \<le> i \<and> i < 0 then Inr (xs ! nat (int (length xs) + i))
      else Inl IndexError)"

text \<open>\<^verbatim>\<open>xs[:k]\<close>: a negative \<open>k\<close> drops the last \<open>-k\<close> elements.\<close>

definition py_slice_to :: "int \<Rightarrow> 'a list \<Rightarrow> 'a list" where
  "py_slice_to k xs =
     (if 0 \<le> k then take (nat k) xs else take (length xs - nat (- k)) xs)"

text \<open>Iterating over a \<^verbatim>\<open>str\<close> yields its characters as one-character strings.\<close>

definition str_iter :: "string \<Rightarrow> token list" where
  "str_iter s = map (\<lambda>c. [c]) s"

text \<open>\<^verbatim>\<open>" ".join(parts)\<close>.\<close>

fun str_join :: "string list \<Rightarrow> string" where
  "str_join [] = []"
| "str_join [p] = p"
| "str_join (p # q # ps) = p @ '' '' @ str_join (q # ps)"

text \<open>\<^verbatim>\<open>os.path.join(a, name)\<close> for a relative \<open>name\<close>.\<close>

definition os_path_join :: "path \<Rightarrow> path \<Rightarrow> path" where
  "os_path_join a name =
     (if a = [] \<or> last a = CHR ''/'' then a @ name else a @ ''/'' @ name)"

definition isfile :: "world \<Rightarrow> path \<Rightarrow> bool" where
  "isfile w p = (fs w p \<noteq> None)"

text \<open>
  \<^verbatim>\<open>with open(p, "rb") as file: pickle.load(file)\<close>. Reading an empty or
  truncated file raises (\<^verbatim>\<open>EOFError\<close> or \<^verbatim>\<open>UnpicklingError\<close>, one error
  here).
\<close>

definition pickle_load :: "path \<Rightarrow> world \<Rightarrow> (error + pyobj) \<times> world" where
  "pickle_load p w =
     (case fs w p of
        None \<Rightarrow> (Inl FileNotFoundError, w)
      | Some Truncated \<Rightarrow> (Inl UnpicklingError, w\<lparr>trace := trace w @ [OpenRead p]\<rparr>)
      | Some (Pickle obj) \<Rightarrow> (Inr obj, w\<lparr>trace := trace w @ [OpenRead p]\<rparr>))"

text \<open>
  \<^verbatim>\<open>with open(p, "wb") as file: pickle.dump(obj, file)\<close>, in its two steps:
  \<^verbatim>\<open>open\<close> creates the file at \<open>p\<close> or empties it, then \<^verbatim>\<open>dump\<close> writes the
  pickle into it.
\<close>

definition open_wb :: "path \<Rightarrow> world \<Rightarrow> world" where
  "open_wb p w = w\<lparr>fs := (fs w)(p \<mapsto> Truncated), trace := trace w @ [OpenWrite p]\<rparr>"

definition dump :: "pyobj \<Rightarrow> path \<Rightarrow> world \<Rightarrow> world" where
  "dump obj p w = w\<lparr>fs := (fs w)(p \<mapsto> Pickle obj), trace := trace w @ [Dump p obj]\<rparr>"

definition pickle_dump :: "pyobj \<Rightarrow> path \<Rightarrow> world \<Rightarrow> world" where
  "pickle_dump obj p w = dump obj p (open_wb p w)"

text \<open>
  The file system a process leaves behind when it dies after the first \<open>n\<close> events of a
  run that started on \<open>f\<close>: the writes among those events, replayed in order.
\<close>

fun replay :: "event list \<Rightarrow> (path \<rightharpoonup> file_content) \<Rightarrow> (path \<rightharpoonup> file_content)" where
  "replay [] f = f"
| "replay (OpenWrite p # es) f = replay es (f(p \<mapsto> Truncated))"
| "replay (Dump p obj # es) f = replay es (f(p \<mapsto> Pickle obj))"
| "replay (Tokenize s # es) f = replay es f"
| "replay (GetScores q # es) f = replay es f"
| "replay (OpenRead p # es) f = replay es f"

definition crash_after :: "nat \<Rightarrow> event list \<Rightarrow> (path \<rightharpoonup> file_content) \<Rightarrow> (path \<rightharpoonup> file_content)" where
  "crash_after n es f = replay (take n es) f"

subsection \<open>NumPy: sort, argsort and sum\<close>

text \<open>
  \<^verbatim>\<open>np.sort\<close> sorts ascending. \<^verbatim>\<open>np.argsort\<close> returns the indices that sort
  the array ascending; it is modelled as a stable sort of the positions by their value
  (what NumPy's default does on short arrays, where it falls back to insertion sort; on
  long arrays NumPy leaves the order of equal values open).
\<close>

definition np_sort :: "real list \<Rightarrow> real list" where
  "np_sort v = sort v"

definition np_argsort :: "real list \<Rightarrow> int list" where
  "np_argsort v = map (\<lambda>p. int (snd p)) (sort_key fst (zip v [0..<length v]))"

text \<open>
  Lines 156 to 159 (and 193 to 197): sort and argsort, both reversed, both cut at \<open>k\<close>.
\<close>

definition top_k :: "real list \<Rightarrow> int \<Rightarrow> real list \<times> int list" where
  "top_k query_scores k =
     (let sorted_score = rev (np_sort query_scores);
          sorted_id = rev (np_argsort query_scores)
      in (py_slice_to k sorted_score, py_slice_to k sorted_id))"

subsection \<open>rank\_bm25: the BM25Plus constructor and get\_scores\<close>

text \<open>
  \<^verbatim>\<open>BM25._initialize\<close>: per document the term counts, and per term the number of
  documents it occurs in.
\<close>

definition frequencies :: "token list \<Rightarrow> (token \<rightharpoonup> nat)" where
  "frequencies document =
     fold (\<lambda>word f. f(word \<mapsto> (case f word of None \<Rightarrow> 0 | Some n \<Rightarrow> n) + 1))
       document Map.empty"

definition count_document :: "token list \<Rightarrow> (token \<rightharpoonup> nat) \<Rightarrow> (token \<rightharpoonup> nat)" where
  "count_document document nd =
     fold (\<lambda>word m. m(word \<mapsto> (case m word of None \<Rightarrow> 1 | Some n \<Rightarrow> n + 1)))
       (remdups document) nd"

text \<open>
  \<^verbatim>\<open>BM25Plus(corpus)\<close>. The average document length divides by the number of
  documents: on an empty corpus Python raises \<^verbatim>\<open>ZeroDivisionError\<close>.
  \<^verbatim>\<open>_calc_idf\<close> sets \<open>idf[word] = log(corpus_size + 1) - log(freq)\<close>.
\<close>

definition BM25Plus :: "token list list \<Rightarrow> error + bm25_plus" where
  "BM25Plus corpus =
     (if corpus = [] then Inl ZeroDivisionError
      else
        let n = length corpus;
            nd = fold count_document corpus Map.empty
        in Inr \<lparr>corpus_size = n,
                avgdl = real (sum_list (map length corpus)) / real n,
                doc_freqs = map frequencies corpus,
                idf = (\<lambda>word. map_option (\<lambda>freq. ln (real (n + 1)) - ln (real freq)) (nd word)),
                doc_len = map length corpus\<rparr>)"

text \<open>
  \<^verbatim>\<open>BM25Plus.get_scores(query)\<close>: for every element \<open>q\<close> of \<open>query\<close> the score
  array grows by \<open>(idf.get(q) or 0) * (delta + q_freq * (k1 + 1) / (k1 * (1 - b + b *
  doc_len / avgdl) + q_freq))\<close>. With real numbers this is the library's value whenever
  \<open>avgdl\<close> is not zero; on an index whose documents are all empty NumPy computes NaN,
  which this model does not have. An index made by the constructor has one entry of
  \<open>doc_freqs\<close> and of \<open>doc_len\<close> per document, so the arrays added here have equal
  lengths.
\<close>

definition term_scores :: "bm25_plus \<Rightarrow> token \<Rightarrow> real list" where
  "term_scores bm q =
     map2 (\<lambda>doc dl.
        let q_freq = real (case doc q of None \<Rightarrow> 0 | Some n \<Rightarrow> n)
        in (case idf bm q of None \<Rightarrow> 0 | Some x \<Rightarrow> x) *
           (bm25_delta + (q_freq * (bm25_k1 + 1)) /
              (bm25_k1 * (1 - bm25_b + bm25_b * real dl / avgdl bm) + q_freq)))
       (doc_freqs bm) (doc_len bm)"

definition get_scores :: "bm25_plus \<Rightarrow> token list \<Rightarrow> real list" where
  "get_scores bm query =
     fold (\<lambda>q score. map2 (+) score (term_scores bm q)) query
       (replicate (corpus_size bm) 0)"

text \<open>\<^verbatim>\<open>self.bm25.get_scores\<close>: only an index has the method.\<close>

definition bm25_get_scores :: "pyobj option \<Rightarrow> token list \<Rightarrow> error + real list" where
  "bm25_get_scores obj query =
     (case obj of
        Some (BM25 bm) \<Rightarrow> Inr (get_scores bm query)
      | _ \<Rightarrow> Inl AttributeError)"

section \<open>The methods of BM25\_PLUS\<close>

subsection \<open>get\_sparse\_embedding\<close>

definition get_sparse_embedding :: "BM25_PLUS \<Rightarrow> world \<Rightarrow> (error + BM25_PLUS) \<times> world" where
  "get_sparse_embedding self w =
     (let emd_path = os_path_join (data_path self) ''bm25.bin'' in
      if isfile w emd_path then
        (case pickle_load emd_path w of
           (Inl e, w') \<Rightarrow> (Inl e, w')
         | (Inr obj, w') \<Rightarrow> (Inr (self\<lparr>bm25 := Some obj\<rparr>), w'))
      else
        let docs = map (\<lambda>(title, text). title @ text) (zip (wiki_title self) (wiki_text self));
            tokenized_corpus = map (tokenize_fn self) docs;
            w1 = w\<lparr>trace := trace w @ map Tokenize docs\<rparr>
        in (case BM25Plus tokenized_corpus of
              Inl e \<Rightarrow> (Inl e, w1)
            | Inr bm \<Rightarrow> (Inr (self\<lparr>bm25 := Some (BM25 bm)\<rparr>), pickle_dump (BM25 bm) emd_path w1)))"

subsection \<open>get\_relevant\_doc\<close>

text \<open>
  Line 151 hands the query string itself to \<^verbatim>\<open>get_scores\<close>, whose loop
  \<^verbatim>\<open>for q in query\<close> then runs over the characters of the string.
\<close>

definition get_relevant_doc ::
  "BM25_PLUS \<Rightarrow> world \<Rightarrow> string \<Rightarrow> int \<Rightarrow> (error + real list \<times> int list) \<times> world" where
  "get_relevant_doc self w query k =
     (case bm25_get_scores (bm25 self) (str_iter query) of
        Inl e \<Rightarrow> (Inl e, w)
      | Inr query_scores \<Rightarrow>
          let w' = w\<lparr>trace := trace w @ [GetScores (str_iter query)]\<rparr> in
          if sum_list query_scores = 0 then (Inl (AssertionError ZeroScoreSum), w')
          else (Inr (top_k query_scores k), w'))"

subsection \<open>get\_relevant\_doc\_bulk\<close>

text \<open>
  A value of a dataset column, or of a field of an output record. \<open>Opaque\<close> stands
  for any value the methods only pass along (an id, the \<^verbatim>\<open>answers\<close> dictionary).
\<close>

datatype 'a pyval =
    Str string
  | IntArray "int list"
  | FloatArray "real list"
  | Opaque 'a

text \<open>
  The loop of lines 189 to 197. Each query goes through \<^verbatim>\<open>self.tokenize_fn\<close>
  first. A query that is not a \<^verbatim>\<open>str\<close> is outside the tokenizer's contract;
  \<open>TypeError\<close> stands for whatever the tokenizer does with it.
\<close>

fun score_queries ::
  "BM25_PLUS \<Rightarrow> 'a pyval list \<Rightarrow> int \<Rightarrow> real list list \<times> int list list \<Rightarrow> world
     \<Rightarrow> (error + real list list \<times> int list list) \<times> world" where
  "score_queries self [] k acc w = (Inr acc, w)"
| "score_queries self (query # queries) k acc w =
     (case query of
        Str q \<Rightarrow>
          let tokenized_query = tokenize_fn self q;
              w1 = w\<lparr>trace := trace w @ [Tokenize q]\<rparr>
          in (case bm25_get_scores (bm25 self) tokenized_query of
                Inl e \<Rightarrow> (Inl e, w1)
              | Inr query_scores \<Rightarrow>
                  let w2 = w1\<lparr>trace := trace w1 @ [GetScores tokenized_query]\<rparr>;
                      top = top_k query_scores k
                  in score_queries self queries k
                       (fst acc @ [fst top], snd acc @ [snd top]) w2)
      | _ \<Rightarrow> (Inl TypeError, w))"

definition get_relevant_doc_bulk ::
  "BM25_PLUS \<Rightarrow> world \<Rightarrow> 'a pyval list \<Rightarrow> int \<Rightarrow> (error + pyobj \<times> pyobj) \<times> world" where
  "get_relevant_doc_bulk self w queries k =
     (let score_path = os_path_join (data_path self) ''BM25_score.bin'';
          indice_path = os_path_join (data_path self) ''BM25_indice.bin''
      in
      if isfile w score_path \<and> isfile w indice_path then
        (case pickle_load score_path w of
           (Inl e, w1) \<Rightarrow> (Inl e, w1)
         | (Inr doc_scores, w1) \<Rightarrow>
             (case pickle_load indice_path w1 of
                (Inl e, w2) \<Rightarrow> (Inl e, w2)
              | (Inr doc_indices, w2) \<Rightarrow> (Inr (doc_scores, doc_indices), w2)))
      else
        (case score_queries self queries k ([], []) w of
           (Inl e, w1) \<Rightarrow> (Inl e, w1)
         | (Inr (doc_scores, doc_indices), w1) \<Rightarrow>
             if sum_list (concat doc_scores) = 0 then (Inl (AssertionError ZeroScoreSum), w1)
             else (Inr (ScoreArrays doc_scores, IndexArrays doc_indices),
                   pickle_dump (IndexArrays doc_indices) indice_path
                     (pickle_dump (ScoreArrays doc_scores) score_path w1))))"

subsection \<open>retrieve\<close>

text \<open>
  A \<^verbatim>\<open>datasets.Dataset\<close>: its column names, and its rows. Every row has exactly
  the columns of the dataset, so a row is read only at those names.
\<close>

record 'a dataset =
  column_names :: "string list"
  rows :: "(string \<Rightarrow> 'a pyval) list"

text \<open>\<^verbatim>\<open>dataset[name]\<close>: the column as a list.\<close>

definition dataset_column :: "'a dataset \<Rightarrow> string \<Rightarrow> error + 'a pyval list" where
  "dataset_column ds name =
     (if name \<in> set (column_names ds) then Inr (map (\<lambda>example. example name) (rows ds))
      else Inl (KeyError name))"

text \<open>\<^verbatim>\<open>example[name]\<close> for a row \<open>example\<close> of the dataset.\<close>

definition example_get :: "'a dataset \<Rightarrow> (string \<Rightarrow> 'a pyval) \<Rightarrow> string \<Rightarrow> error + 'a pyval" where
  "example_get ds example name =
     (if name \<in> set (column_names ds) then Inr (example name) else Inl (KeyError name))"

text \<open>
  The argument of \<^verbatim>\<open>retrieve\<close>: a \<^verbatim>\<open>str\<close>, a \<^verbatim>\<open>Dataset\<close>, or a value
  of any other type. Its result: the pair of the single-query branch, the rows of the
  data frame of the batch branch, or \<^verbatim>\<open>None\<close>.
\<close>

datatype 'a query_or_dataset =
    Query string
  | Queries "'a dataset"
  | OtherValue

datatype 'a retrieved =
    Passages "real list" "string list"
  | DataFrame "(string \<rightharpoonup> 'a pyval) list"
  | PyNone

text \<open>\<^verbatim>\<open>range(topk)\<close>.\<close>

definition py_range :: "int \<Rightarrow> int list" where
  "py_range n = map int [0..<nat n]"

text \<open>
  Lines 102 to 106: for every \<open>i\<close> in \<^verbatim>\<open>range(topk)\<close> the code reads
  \<^verbatim>\<open>doc_scores[i]\<close> and \<^verbatim>\<open>self.wiki_text[doc_indices[i]]\<close>.
\<close>

fun top_passages :: "BM25_PLUS \<Rightarrow> real list \<Rightarrow> int list \<Rightarrow> int list \<Rightarrow> error + string list" where
  "top_passages self doc_scores doc_indices [] = Inr []"
| "top_passages self doc_scores doc_indices (i # is) =
     (case py_index doc_scores i of
        Inl e \<Rightarrow> Inl e
      | Inr score \<Rightarrow>
          (case py_index doc_indices i of
             Inl e \<Rightarrow> Inl e
           | Inr pid \<Rightarrow>
               (case py_index (wiki_text self) pid of
                  Inl e \<Rightarrow> Inl e
                | Inr passage \<Rightarrow>
                    (case top_passages self doc_scores doc_indices is of
                       Inl e \<Rightarrow> Inl e
                     | Inr passages \<Rightarrow> Inr (passage # passages)))))"

text \<open>\<^verbatim>\<open>[self.wiki_text[pid] for pid in pids]\<close>.\<close>

fun wiki_texts :: "BM25_PLUS \<Rightarrow> int list \<Rightarrow> error + string list" where
  "wiki_texts self [] = Inr []"
| "wiki_texts self (pid # pids) =
     (case py_index (wiki_text self) pid of
        Inl e \<Rightarrow> Inl e
      | Inr passage \<Rightarrow>
          (case wiki_texts self pids of
             Inl e \<Rightarrow> Inl e
           | Inr passages \<Rightarrow> Inr (passage # passages)))"

text \<open>
  \<^verbatim>\<open>doc_indices[idx]\<close> on what \<^verbatim>\<open>get_relevant_doc_bulk\<close> returned, which
  after a cache hit is whatever object the file held.
\<close>

definition doc_indices_at :: "pyobj \<Rightarrow> int \<Rightarrow> error + 'a pyval" where
  "doc_indices_at doc_indices idx =
     (case doc_indices of
        IndexArrays arrays \<Rightarrow> map_sum id IntArray (py_index arrays idx)
      | ScoreArrays arrays \<Rightarrow> map_sum id FloatArray (py_index arrays idx)
      | BM25 bm \<Rightarrow> Inl TypeError)"

text \<open>
  The passages of one row of indices; a list cannot be indexed by a float, so only an
  empty array of floats passes.
\<close>

definition context_passages :: "BM25_PLUS \<Rightarrow> 'a pyval \<Rightarrow> error + string list" where
  "context_passages self context_id =
     (case context_id of
        IntArray pids \<Rightarrow> wiki_texts self pids
      | FloatArray xs \<Rightarrow> (if xs = [] then Inr [] else Inl TypeError)
      | _ \<Rightarrow> Inl TypeError)"

text \<open>Lines 119 to 132: the output record \<^verbatim>\<open>tmp\<close> of one example.\<close>

definition make_record ::
  "BM25_PLUS \<Rightarrow> 'a dataset \<Rightarrow> pyobj \<Rightarrow> int \<Rightarrow> (string \<Rightarrow> 'a pyval)
     \<Rightarrow> error + (string \<rightharpoonup> 'a pyval)" where
  "make_record self ds doc_indices idx example =
     (case example_get ds example ''question'' of
        Inl e \<Rightarrow> Inl e
      | Inr question \<Rightarrow>
     (case example_get ds example ''id'' of
        Inl e \<Rightarrow> Inl e
      | Inr ident \<Rightarrow>
     (case doc_indices_at doc_indices idx of
        Inl e \<Rightarrow> Inl e
      | Inr context_id \<Rightarrow>
     (case context_passages self context_id of
        Inl e \<Rightarrow> Inl e
      | Inr passages \<Rightarrow>
          let tmp = [''question'' \<mapsto> question, ''id'' \<mapsto> ident,
                     ''context_id'' \<mapsto> context_id, ''context'' \<mapsto> Str (str_join passages)]
          in if ''context'' \<in> set (column_names ds) \<and> ''answers'' \<in> set (column_names ds)
             then Inr (tmp(''original_context'' \<mapsto> example ''context'',
                           ''answers'' \<mapsto> example ''answers''))
             else Inr tmp))))"

text \<open>The loop of lines 116 to 133 over \<^verbatim>\<open>enumerate(query_or_dataset)\<close>.\<close>

fun make_records ::
  "BM25_PLUS \<Rightarrow> 'a dataset \<Rightarrow> pyobj \<Rightarrow> int \<Rightarrow> (string \<Rightarrow> 'a pyval) list
     \<Rightarrow> error + (string \<rightharpoonup> 'a pyval) list" where
  "make_records self ds doc_indices idx [] = Inr []"
| "make_records self ds doc_indices idx (example # examples) =
     (case make_record self ds doc_indices idx example of
        Inl e \<Rightarrow> Inl e
      | Inr tmp \<Rightarrow>
          (case make_records self ds doc_indices (idx + 1) examples of
             Inl e \<Rightarrow> Inl e
           | Inr rest \<Rightarrow> Inr (tmp # rest)))"

definition retrieve ::
  "BM25_PLUS \<Rightarrow> world \<Rightarrow> 'a query_or_dataset \<Rightarrow> int \<Rightarrow> (error + 'a retrieved) \<times> world" where
  "retrieve self w query_or_dataset topk =
     (if bm25 self = None then (Inl (AssertionError IndexNotBuilt), w)
      else
        (case query_or_dataset of
           Query query \<Rightarrow>
             (case get_relevant_doc self w query topk of
                (Inl e, w') \<Rightarrow> (Inl e, w')
              | (Inr (doc_scores, doc_indices), w') \<Rightarrow>
                  (case top_passages self doc_scores doc_indices (py_range topk) of
                     Inl e \<Rightarrow> (Inl e, w')
                   | Inr passages \<Rightarrow> (Inr (Passages doc_scores passages), w')))
         | Queries ds \<Rightarrow>
             (case dataset_column ds ''question'' of
                Inl e \<Rightarrow> (Inl e, w)
              | Inr questions \<Rightarrow>
                  (case get_relevant_doc_bulk self w questions topk of
                     (Inl e, w') \<Rightarrow> (Inl e, w')
                   | (Inr (doc_scores, doc_indices), w') \<Rightarrow>
                       (case make_records self ds doc_indices 0 (rows ds) of
                          Inl e \<Rightarrow> (Inl e, w')
                        | Inr records \<Rightarrow> (Inr (DataFrame records), w'))))
         | OtherValue \<Rightarrow> (Inr PyNone, w)))"

section \<open>Example inputs\<close>


text \<open>A tokenizer for the examples: the words between blanks.\<close>

fun words_from :: "string \<Rightarrow> string \<Rightarrow> token list" where
  "words_from word [] = (if word = [] then [] else [word])"
| "words_from word (c # cs) =
     (if c = CHR '' '' then (if word = [] then words_from [] cs else word # words_from [] cs)
      else words_from (word @ [c]) cs)"

definition whitespace_split :: "string \<Rightarrow> token list" where
  "whitespace_split s = words_from [] s"

text \<open>A retriever over two documents, before its index is built, and an empty disk.\<close>

definition ex_retriever :: BM25_PLUS where
  "ex_retriever =
     \<lparr>wiki_text = [''a cat sat'', ''a dog ran''],
      wiki_title = [''cats '', ''dogs ''],
      data_path = ''/opt/ml/input/data/'',
      tokenize_fn = whitespace_split,
      bm25 = None\<rparr>"

definition empty_disk :: world where
  "empty_disk = \<lparr>fs = Map.empty, trace = []\<rparr>"

definition ex_corpus :: "token list list" where
  "ex_corpus = [[''cats'', ''a'', ''cat'', ''sat''], [''dogs'', ''a'', ''dog'', ''ran'']]"

definition ex_index :: bm25_plus where
  "ex_index = projr (BM25Plus ex_corpus)"

definition ex_ready :: BM25_PLUS where
  "ex_ready = ex_retriever\<lparr>bm25 := Some (BM25 ex_index)\<rparr>"


text \<open>
  One example of a question dataset, read at the columns its dataset has, and two
  datasets over it: one with a \<^verbatim>\<open>context\<close> column but no \<^verbatim>\<open>answers\<close>,
  one with both.
\<close>

definition ex_example :: "string \<Rightarrow> nat pyval" where
  "ex_example name =
     (if name = ''question'' then Str ''cat''
      else if name = ''id'' then Opaque 7
      else if name = ''context'' then Str ''gold passage''
      else Opaque 42)"

definition ex_context_only :: "nat dataset" where
  "ex_context_only = \<lparr>column_names = [''id'', ''question'', ''context''], rows = [ex_example]\<rparr>"

definition ex_validation :: "nat dataset" where
  "ex_validation =
     \<lparr>column_names = [''id'', ''question'', ''context'', ''answers''], rows = [ex_example]\<rparr>"


text \<open>A disk that holds both files of the batch cache.\<close>

definition ex_cached_disk :: world where
  "ex_cached_disk =
     \<lparr>fs = [''/opt/ml/input/data/BM25_score.bin'' \<mapsto> Pickle (ScoreArrays [[5]]),
            ''/opt/ml/input/data/BM25_indice.bin'' \<mapsto> Pickle (IndexArrays [[1]])],
      trace = []\<rparr>"


text \<open>The output record of that example when document 0 is retrieved for it.\<close>

definition ex_validation_record :: "string \<rightharpoonup> nat pyval" where
  "ex_validation_record =
     [''question'' \<mapsto> Str ''cat'', ''id'' \<mapsto> Opaque 7,
      ''context_id'' \<mapsto> IntArray [0], ''context'' \<mapsto> Str ''a cat sat'',
      ''original_context'' \<mapsto> Str ''gold passage'', ''answers'' \<mapsto> Opaque 42]"


section \<open>The shape of an index\<close>

text \<open>
  An index made by the constructor has one entry per document in every array, and
  \<^verbatim>\<open>get_scores\<close> on such an index returns one score per document.
\<close>

lemma BM25Plus_shape:
  assumes "BM25Plus corpus = Inr bm"
  shows "corpus_size bm = length corpus \<and> length (doc_freqs bm) = length corpus
    \<and> length (doc_len bm) = length corpus"
  using assms by (auto simp: BM25Plus_def Let_def split: if_splits)

lemma fold_scores_length:
  assumes "\<And>q. length (term_scores bm q) = n" and "length acc = n"
  shows "length (fold (\<lambda>q score. map2 (+) score (term_scores bm q)) query acc) = n"
  using assms(2) by (induction query arbitrary: acc) (simp_all add: assms(1))

lemma get_scores_length:
  assumes "length (doc_freqs bm) = corpus_size bm" and "length (doc_len bm) = corpus_size bm"
  shows "length (get_scores bm query) = corpus_size bm"
proof -
  have "length (term_scores bm q) = corpus_size bm" for q
    using assms by (simp add: term_scores_def)
  then show ?thesis
    unfolding get_scores_def by (rule fold_scores_length) simp_all
qed

section \<open>The example index\<close>

lemma ex_tok: "map whitespace_split [''cats a cat sat'', ''dogs a dog ran''] = ex_corpus"
  by (simp add: whitespace_split_def ex_corpus_def)

lemma ex_build: "BM25Plus ex_corpus = Inr ex_index"
  by (simp add: ex_index_def BM25Plus_def ex_corpus_def)

lemma ex_index_fields:
  "corpus_size ex_index = 2" "avgdl ex_index = 4" "doc_len ex_index = [4, 4]"
  "doc_freqs ex_index =
     [frequencies [''cats'', ''a'', ''cat'', ''sat''], frequencies [''dogs'', ''a'', ''dog'', ''ran'']]"
  by (simp_all add: ex_index_def BM25Plus_def ex_corpus_def Let_def)

lemma ex_idf:
  "idf ex_index ''cat'' = Some (ln 3)"
  "idf ex_index ''a'' = Some (ln 3 - ln 2)"
  "idf ex_index ''c'' = None"
  "idf ex_index ''t'' = None"
  "idf ex_index ''x'' = None"
  "idf ex_index ''y'' = None"
  "idf ex_index ''z'' = None"
  by (simp_all add: ex_index_def BM25Plus_def ex_corpus_def Let_def count_document_def)

lemmas ex_eval = get_scores_def term_scores_def ex_idf ex_index_fields frequencies_def
      bm25_k1_def bm25_b_def bm25_delta_def str_iter_def eval_nat_numeral

lemma ex_scores_cat: "get_scores ex_index [''cat''] = [2 * ln 3, ln 3]"
  by (simp add: ex_eval)

lemma ex_scores_cat_chars:
  "get_scores ex_index (str_iter ''cat'') = [2 * (ln 3 - ln 2), 2 * (ln 3 - ln 2)]"
  by (simp add: ex_eval)

lemma ex_scores_a:
  "get_scores ex_index (str_iter ''a'') = [2 * (ln 3 - ln 2), 2 * (ln 3 - ln 2)]"
  by (simp add: ex_eval)

lemma ex_scores_xyz: "get_scores ex_index (str_iter ''xyz'') = [0, 0]"
  by (simp add: ex_eval)

section \<open>Top-k selection\<close>

lemma map_fst_sort_key: "map fst (sort_key fst zs) = sort (map fst zs)"
proof -
  have "mset (map fst (sort_key fst zs)) = mset (map fst zs)" by simp
  moreover have "sorted (map fst (sort_key fst zs))" by (rule sorted_sort_key)
  ultimately show ?thesis by (metis properties_for_sort)
qed

lemma np_sort_length: "length (np_sort v) = length v"
  by (simp add: np_sort_def)

lemma np_argsort_length: "length (np_argsort v) = length v"
  by (simp add: np_argsort_def)

text \<open>Reading the scores at the positions argsort returns gives the sorted scores.\<close>

lemma np_argsort_values: "map (\<lambda>i. v ! nat i) (np_argsort v) = np_sort v"
proof -
  let ?zs = "zip v [0..<length v]"
  have pair: "fst p = v ! snd p" if "p \<in> set ?zs" for p
    using that by (auto simp: set_zip)
  have "map (\<lambda>i. v ! nat i) (np_argsort v) = map (\<lambda>p. v ! snd p) (sort_key fst ?zs)"
    by (simp add: np_argsort_def comp_def)
  also have "\<dots> = map fst (sort_key fst ?zs)"
    by (rule map_cong) (simp_all add: pair)
  also have "\<dots> = sort (map fst ?zs)" by (rule map_fst_sort_key)
  also have "\<dots> = np_sort v" by (simp add: np_sort_def)
  finally show ?thesis .
qed

lemma np_argsort_distinct: "distinct (np_argsort v)"
proof -
  let ?zs = "zip v [0..<length v]"
  have d: "distinct (map snd ?zs)" by simp
  have "distinct ?zs" using d distinct_map by blast
  moreover have "inj_on snd (set ?zs)" using d distinct_map by blast
  ultimately have "distinct (map snd (sort_key fst ?zs))"
    by (simp add: distinct_map)
  then have "distinct (map int (map snd (sort_key fst ?zs)))"
    by (simp add: distinct_map inj_on_def)
  then show ?thesis by (simp add: np_argsort_def comp_def)
qed

lemma np_argsort_range: "i \<in> set (np_argsort v) \<Longrightarrow> 0 \<le> i \<and> i < int (length v)"
  by (auto simp: np_argsort_def set_zip)

lemma sorted_desc_rev_np_sort: "sorted_wrt (\<lambda>x y. y \<le> x) (rev (np_sort v))"
  by (simp add: sorted_wrt_rev np_sort_def)

text \<open>
  C3, as the code has it. For \<open>k \<ge> 1\<close> the selection returns \<open>min k (length v)\<close>
  scores and as many document ordinals; the scores are the first \<open>k\<close> of the scores
  sorted descending; the ordinals are distinct positions of \<open>v\<close>, and each returned
  score is the score of the document returned beside it. Nothing puts the lower
  ordinal first among equal scores.
\<close>

theorem top_k_sorted_descending:
  assumes "1 \<le> k"
  shows "fst (top_k v k) = take (nat k) (rev (np_sort v))
    \<and> length (fst (top_k v k)) = min (nat k) (length v)
    \<and> length (snd (top_k v k)) = min (nat k) (length v)
    \<and> sorted_wrt (\<lambda>x y. y \<le> x) (fst (top_k v k))
    \<and> distinct (snd (top_k v k))
    \<and> (\<forall>i < min (nat k) (length v).
          0 \<le> snd (top_k v k) ! i \<and> snd (top_k v k) ! i < int (length v)
          \<and> fst (top_k v k) ! i = v ! nat (snd (top_k v k) ! i))"
proof -
  have k: "0 \<le> k" using assms by simp
  have scores: "fst (top_k v k) = take (nat k) (rev (np_sort v))"
    and ids: "snd (top_k v k) = take (nat k) (rev (np_argsort v))"
    using k by (simp_all add: top_k_def py_slice_to_def Let_def)
  have len1: "length (fst (top_k v k)) = min (nat k) (length v)"
    by (simp add: scores np_sort_length min.commute)
  have len2: "length (snd (top_k v k)) = min (nat k) (length v)"
    by (simp add: ids np_argsort_length min.commute)
  have desc: "sorted_wrt (\<lambda>x y. y \<le> x) (fst (top_k v k))"
    unfolding scores by (rule sorted_wrt_take) (rule sorted_desc_rev_np_sort)
  have dist: "distinct (snd (top_k v k))"
    unfolding ids by (simp add: np_argsort_distinct)
  have "map (\<lambda>i. v ! nat i) (snd (top_k v k))
      = take (nat k) (rev (map (\<lambda>i. v ! nat i) (np_argsort v)))"
    unfolding ids by (simp add: take_map rev_map)
  then have vals: "map (\<lambda>i. v ! nat i) (snd (top_k v k)) = fst (top_k v k)"
    by (simp add: np_argsort_values scores)
  have each: "0 \<le> snd (top_k v k) ! i \<and> snd (top_k v k) ! i < int (length v)
          \<and> fst (top_k v k) ! i = v ! nat (snd (top_k v k) ! i)"
    if "i < min (nat k) (length v)" for i
  proof -
    have i: "i < length (snd (top_k v k))" using that len2 by simp
    then have "snd (top_k v k) ! i \<in> set (np_argsort v)"
      unfolding ids by (metis in_set_takeD nth_mem set_rev)
    then have r: "0 \<le> snd (top_k v k) ! i \<and> snd (top_k v k) ! i < int (length v)"
      by (rule np_argsort_range)
    have "fst (top_k v k) ! i = map (\<lambda>i. v ! nat i) (snd (top_k v k)) ! i"
      by (simp add: vals)
    also have "\<dots> = v ! nat (snd (top_k v k) ! i)" using i by simp
    finally show ?thesis using r by simp
  qed
  show ?thesis using scores len1 len2 desc dist each by blast
qed

theorem top_k_sorted_descending_witness:
  "(1::int) \<le> 2
    \<and> fst (top_k [1, 3, 2, 3] 2) = [3, 3]
    \<and> length (snd (top_k [1, 3, 2, 3] 2)) = 2
    \<and> distinct (snd (top_k [1, 3, 2, 3] 2))
    \<and> fst (top_k [1, 3, 2, 3] 2) ! 0 = [1, 3, 2, 3] ! nat (snd (top_k [1, 3, 2, 3] 2) ! 0)"
proof -
  have h: "(1::int) \<le> 2" by simp
  note t = top_k_sorted_descending [OF h, of "[1, 3, 2, 3]"]
  have "fst (top_k [1, 3, 2, 3] 2) = [3, 3]"
    using t by (simp add: np_sort_def)
  moreover have "length (snd (top_k [1, 3, 2, 3] 2)) = 2"
    using t by simp
  moreover have "distinct (snd (top_k [1, 3, 2, 3] 2))"
    using t by blast
  moreover have "fst (top_k [1, 3, 2, 3] 2) ! 0 = [1, 3, 2, 3] ! nat (snd (top_k [1, 3, 2, 3] 2) ! 0)"
    using t by fastforce
  ultimately show ?thesis using h by blast
qed

text \<open>
  Two documents with the same score: the one with the higher ordinal comes first.
\<close>

theorem top_k_ties_higher_ordinal_first: "top_k [1, 1] 2 = ([1, 1], [1, 0])"
  by (simp add: top_k_def np_sort_def np_argsort_def py_slice_to_def)

section \<open>Single-query retrieval\<close>

lemma fold_scores_zero:
  assumes "\<forall>q \<in> set query. idf bm q = None" "\<forall>x \<in> set acc. x = 0"
  shows "\<forall>x \<in> set (fold (\<lambda>q score. map2 (+) score (term_scores bm q)) query acc). x = 0"
  using assms
proof (induction query arbitrary: acc)
  case Nil
  then show ?case by simp
next
  case (Cons q query)
  have ts: "\<forall>x \<in> set (term_scores bm q). x = 0"
    using Cons.prems(1) by (auto simp: term_scores_def set_zip)
  have "x = 0" if "x \<in> set (map2 (+) acc (term_scores bm q))" for x
  proof -
    from that obtain a t where at: "(a, t) \<in> set (zip acc (term_scores bm q))" and x: "x = a + t"
      by auto
    have "a \<in> set acc" using at by (rule set_zip_leftD)
    moreover have "t \<in> set (term_scores bm q)" using at by (rule set_zip_rightD)
    ultimately show ?thesis using ts Cons.prems(2) x by auto
  qed
  then have step: "\<forall>x \<in> set (map2 (+) acc (term_scores bm q)). x = 0" by blast
  have rest: "\<forall>q \<in> set query. idf bm q = None" using Cons.prems(1) by simp
  show ?case using Cons.IH [OF rest step] by simp
qed

lemma get_scores_out_of_vocabulary:
  assumes "\<forall>q \<in> set query. idf bm q = None"
  shows "get_scores bm query = replicate (length (get_scores bm query)) 0"
proof -
  have "\<forall>x \<in> set (get_scores bm query). x = 0"
    unfolding get_scores_def by (rule fold_scores_zero [OF assms]) simp
  then show ?thesis by (simp add: replicate_length_same)
qed

lemma sum_list_zeros: "sum_list (replicate n (0::real)) = 0"
  by (simp add: sum_list_replicate)

text \<open>
  C1, as the code has it. The assertion of lines 152 to 154 rejects a score array that
  sums to zero. When none of the tokens the query is scored on is in the vocabulary of
  the index, every score is zero and \<^verbatim>\<open>get_relevant_doc\<close> raises the
  \<^verbatim>\<open>AssertionError\<close>: no top-k is returned. (The index has a non-zero average
  document length: only there are the scores real numbers.)
\<close>

theorem out_of_vocabulary_query_raises:
  assumes "bm25 self = Some (BM25 bm)" and "avgdl bm \<noteq> 0"
    and "\<forall>q \<in> set (str_iter query). idf bm q = None"
  shows "get_scores bm (str_iter query) = replicate (length (get_scores bm (str_iter query))) 0
    \<and> get_relevant_doc self w query k =
        (Inl (AssertionError ZeroScoreSum), w\<lparr>trace := trace w @ [GetScores (str_iter query)]\<rparr>)"
proof -
  have z: "get_scores bm (str_iter query) = replicate (length (get_scores bm (str_iter query))) 0"
    by (rule get_scores_out_of_vocabulary [OF assms(3)])
  then have "sum_list (get_scores bm (str_iter query)) = 0"
    by (metis sum_list_zeros)
  then show ?thesis
    using z assms(1) by (simp add: get_relevant_doc_def bm25_get_scores_def Let_def)
qed

text \<open>
  On the example index the query \<^verbatim>\<open>xyz\<close> scores zero on both documents, and the
  call ends in the assertion instead of an all-zero top-1.
\<close>

theorem out_of_vocabulary_query_gets_no_result:
  "get_scores ex_index (str_iter ''xyz'') = [0, 0]
   \<and> fst (get_relevant_doc ex_ready empty_disk ''xyz'' 1) = Inl (AssertionError ZeroScoreSum)"
  by (simp add: ex_scores_xyz get_relevant_doc_def bm25_get_scores_def ex_ready_def)

theorem out_of_vocabulary_query_raises_witness:
  "bm25 ex_ready = Some (BM25 ex_index) \<and> avgdl ex_index \<noteq> 0
   \<and> get_relevant_doc ex_ready empty_disk ''xyz'' 3 =
        (Inl (AssertionError ZeroScoreSum), empty_disk\<lparr>trace := [GetScores [''x'', ''y'', ''z'']]\<rparr>)"
proof -
  have a: "bm25 ex_ready = Some (BM25 ex_index)" by (simp add: ex_ready_def)
  have b: "avgdl ex_index \<noteq> 0" by (simp add: ex_index_fields)
  have c: "\<forall>q \<in> set (str_iter ''xyz''). idf ex_index q = None"
    by (simp add: str_iter_def ex_idf)
  show ?thesis
    using a b out_of_vocabulary_query_raises [OF a b c, of empty_disk 3]
    by (simp add: str_iter_def empty_disk_def)
qed

text \<open>The single-query method never calls the tokenizer: any tokenizer gives the same run.\<close>

lemma single_query_ignores_tokenizer:
  "get_relevant_doc (self\<lparr>tokenize_fn := f\<rparr>) w query k = get_relevant_doc self w query k"
  by (simp add: get_relevant_doc_def)

text \<open>
  C2 at the query \<^verbatim>\<open>cat\<close> on the example index, whose tokenizer splits at blanks.
  The batch method tokenizes the query to the one token \<^verbatim>\<open>cat\<close> and ranks
  document 0 first. The single-query method scores the characters \<^verbatim>\<open>c\<close>,
  \<^verbatim>\<open>a\<close>, \<^verbatim>\<open>t\<close>, of which only \<^verbatim>\<open>a\<close> is a token of the corpus, and
  returns document 1 with another score.
\<close>

theorem single_query_scores_characters:
  "fst (get_relevant_doc ex_ready empty_disk ''cat'' 1) = Inr ([2 * (ln 3 - ln 2)], [1])
   \<and> fst (get_relevant_doc_bulk ex_ready empty_disk [Str ''cat'' :: unit pyval] 1)
       = Inr (ScoreArrays [[2 * ln 3]], IndexArrays [[0]])"
proof -
  have "fst (get_relevant_doc ex_ready empty_disk ''cat'' 1) = Inr ([2 * (ln 3 - ln 2)], [1])"
    by (simp add: get_relevant_doc_def bm25_get_scores_def ex_ready_def ex_scores_cat_chars
        top_k_def np_sort_def np_argsort_def py_slice_to_def Let_def)
  moreover have "fst (get_relevant_doc_bulk ex_ready empty_disk [Str ''cat'' :: unit pyval] 1)
       = Inr (ScoreArrays [[2 * ln 3]], IndexArrays [[0]])"
    by (simp add: get_relevant_doc_bulk_def isfile_def empty_disk_def ex_ready_def ex_retriever_def
        whitespace_split_def bm25_get_scores_def ex_scores_cat
        top_k_def np_sort_def np_argsort_def py_slice_to_def Let_def)
  ultimately show ?thesis by simp
qed

text \<open>
  C6, as the code has it. No line checks \<open>k\<close>. For \<open>k \<le> 0\<close> and a score array
  with a non-zero sum, \<^verbatim>\<open>get_relevant_doc\<close> returns the slices
  \<^verbatim>\<open>sorted_score[:k]\<close> and \<^verbatim>\<open>sorted_id[:k]\<close>: empty for \<open>k = 0\<close>, all
  but the last \<open>-k\<close> entries for \<open>k < 0\<close>.
\<close>

theorem nonpositive_k_returns_slice:
  assumes "k \<le> 0" and "bm25 self = Some (BM25 bm)"
    and "sum_list (get_scores bm (str_iter query)) \<noteq> 0"
  shows "fst (get_relevant_doc self w query k) =
      Inr (if k = 0 then ([], [])
           else (take (length (get_scores bm (str_iter query)) - nat (- k))
                   (rev (np_sort (get_scores bm (str_iter query)))),
                 take (length (get_scores bm (str_iter query)) - nat (- k))
                   (rev (np_argsort (get_scores bm (str_iter query))))))"
  using assms
  by (simp add: get_relevant_doc_def bm25_get_scores_def Let_def top_k_def py_slice_to_def
        np_sort_length np_argsort_length)

text \<open>
  On the example index, \<open>k = 0\<close> gives the empty result and \<open>k = -1\<close> a truncated
  one; neither is an error.
\<close>

theorem nonpositive_k_no_error:
  "fst (get_relevant_doc ex_ready empty_disk ''a'' 0) = Inr ([], [])
   \<and> fst (get_relevant_doc ex_ready empty_disk ''a'' (- 1)) = Inr ([2 * (ln 3 - ln 2)], [1])"
  by (simp add: get_relevant_doc_def bm25_get_scores_def ex_ready_def ex_scores_a
        top_k_def np_sort_def np_argsort_def py_slice_to_def Let_def)

theorem nonpositive_k_returns_slice_witness:
  "(- 1 :: int) \<le> 0 \<and> bm25 ex_ready = Some (BM25 ex_index)
   \<and> sum_list (get_scores ex_index (str_iter ''a'')) \<noteq> 0
   \<and> fst (get_relevant_doc ex_ready empty_disk ''a'' (- 1)) = Inr ([2 * (ln 3 - ln 2)], [1])"
proof -
  have a: "(- 1 :: int) \<le> 0" by simp
  have b: "bm25 ex_ready = Some (BM25 ex_index)" by (simp add: ex_ready_def)
  have c: "sum_list (get_scores ex_index (str_iter ''a'')) \<noteq> 0"
    by (simp add: ex_scores_a)
  show ?thesis
    using a b c nonpositive_k_returns_slice [OF a b c, of empty_disk]
    by (simp add: ex_scores_a np_sort_def np_argsort_def)
qed

section \<open>The dispatch of retrieve\<close>

text \<open>
  C4. Whatever the argument, single query or batch, \<^verbatim>\<open>retrieve\<close> on an object
  whose index is not built (\<^verbatim>\<open>self.bm25 is None\<close>) fails at the assertion of
  line 96, the error the code has for a retriever that is not ready. The world is left
  as it was: no tokenizer call, no call of \<^verbatim>\<open>get_scores\<close>, no file read or
  written.
\<close>

theorem retrieve_before_build_fails:
  assumes "bm25 self = None"
  shows "retrieve self w query_or_dataset topk = (Inl (AssertionError IndexNotBuilt), w)
    \<and> trace (snd (retrieve self w query_or_dataset topk)) = trace w"
  using assms by (simp add: retrieve_def)

theorem retrieve_before_build_fails_witness:
  "bm25 ex_retriever = None
   \<and> retrieve ex_retriever empty_disk (Query ''cat'' :: unit query_or_dataset) 1
       = (Inl (AssertionError IndexNotBuilt), empty_disk)
   \<and> retrieve ex_retriever empty_disk
         (Queries \<lparr>column_names = [''question'', ''id''], rows = [\<lambda>name. Str ''cat'' :: unit pyval]\<rparr>) 1
       = (Inl (AssertionError IndexNotBuilt), empty_disk)"
proof -
  have h: "bm25 ex_retriever = None" by (simp add: ex_retriever_def)
  show ?thesis
    using h retrieve_before_build_fails [OF h, of empty_disk "Query ''cat'' :: unit query_or_dataset" 1]
      retrieve_before_build_fails [OF h, of empty_disk
         "Queries \<lparr>column_names = [''question'', ''id''], rows = [\<lambda>name. Str ''cat'' :: unit pyval]\<rparr>" 1]
    by simp
qed

text \<open>
  C10. Once the index is there, \<^verbatim>\<open>retrieve\<close> on an argument that is neither a
  \<^verbatim>\<open>str\<close> nor a \<^verbatim>\<open>Dataset\<close> falls through both branches and returns
  \<^verbatim>\<open>None\<close>; it raises nothing and touches nothing.
\<close>

theorem retrieve_other_value_returns_none:
  assumes "bm25 self \<noteq> None"
  shows "retrieve self w OtherValue topk = (Inr PyNone, w)"
  using assms by (simp add: retrieve_def)

theorem retrieve_other_value_returns_none_witness:
  "bm25 ex_ready \<noteq> None
   \<and> retrieve ex_ready empty_disk (OtherValue :: unit query_or_dataset) 1 = (Inr PyNone, empty_disk)"
proof -
  have h: "bm25 ex_ready \<noteq> None" by (simp add: ex_ready_def)
  show ?thesis
    using h retrieve_other_value_returns_none [OF h, of empty_disk 1] by simp
qed

section \<open>Building and caching the index\<close>

text \<open>
  C7, as the code has it. \<^verbatim>\<open>get_sparse_embedding\<close> has no check for an empty
  corpus and no error of its own for it. With no cache file and no document (the zip
  of titles and texts is empty) the build still fails: the empty list goes to the
  constructor \<^verbatim>\<open>BM25Plus\<close>, which raises \<^verbatim>\<open>ZeroDivisionError\<close> when it
  divides by the number of documents. No index is assigned or returned, and no cache
  file is written.
\<close>

theorem build_on_empty_corpus_fails:
  assumes "\<not> isfile w (os_path_join (data_path self) ''bm25.bin'')"
    and "wiki_title self = [] \<or> wiki_text self = []"
  shows "get_sparse_embedding self w = (Inl ZeroDivisionError, w)"
  using assms by (auto simp: get_sparse_embedding_def BM25Plus_def Let_def)

theorem build_on_empty_corpus_fails_witness:
  "\<not> isfile empty_disk (os_path_join (data_path (ex_retriever\<lparr>wiki_text := []\<rparr>)) ''bm25.bin'')
   \<and> get_sparse_embedding (ex_retriever\<lparr>wiki_text := []\<rparr>) empty_disk
       = (Inl ZeroDivisionError, empty_disk)"
proof -
  have a: "\<not> isfile empty_disk (os_path_join (data_path (ex_retriever\<lparr>wiki_text := []\<rparr>)) ''bm25.bin'')"
    by (simp add: isfile_def empty_disk_def)
  have b: "wiki_title (ex_retriever\<lparr>wiki_text := []\<rparr>) = []
      \<or> wiki_text (ex_retriever\<lparr>wiki_text := []\<rparr>) = []"
    by simp
  show ?thesis using a build_on_empty_corpus_fails [OF a b] by simp
qed

text \<open>
  The example retriever without any document, on an empty disk: the error that ends the
  build is the arithmetic one of the library, not an error about the corpus.
\<close>

theorem empty_corpus_error_is_zero_division:
  "fst (get_sparse_embedding (ex_retriever\<lparr>wiki_text := [], wiki_title := []\<rparr>) empty_disk)
     = Inl ZeroDivisionError"
  by (simp add: get_sparse_embedding_def BM25Plus_def Let_def isfile_def empty_disk_def)

text \<open>The build of the example retriever on an empty disk.\<close>

lemma ex_get_sparse_embedding:
  "get_sparse_embedding ex_retriever empty_disk =
    (Inr ex_ready,
     \<lparr>fs = [''/opt/ml/input/data/bm25.bin'' \<mapsto> Pickle (BM25 ex_index)],
      trace = [Tokenize ''cats a cat sat'', Tokenize ''dogs a dog ran'',
               OpenWrite ''/opt/ml/input/data/bm25.bin'',
               Dump ''/opt/ml/input/data/bm25.bin'' (BM25 ex_index)]\<rparr>)"
  by (simp add: get_sparse_embedding_def ex_retriever_def empty_disk_def os_path_join_def
     isfile_def ex_tok[simplified] ex_build ex_ready_def pickle_dump_def open_wb_def dump_def Let_def)

text \<open>
  C5, as the code has it. When the cache path holds the pickle of an object,
  \<^verbatim>\<open>get_sparse_embedding\<close> loads it and assigns it to \<^verbatim>\<open>self.bm25\<close>: the
  only event is the read of that file, the tokenizer is not called and the corpus is
  not looked at. When no file is there and the constructor succeeds, every document is
  tokenized, the index is built, and the index is pickled straight into the cache
  path: \<^verbatim>\<open>open(emd_path, "wb")\<close>, then \<^verbatim>\<open>pickle.dump\<close>. There is no
  temporary file and no rename.
\<close>

theorem index_cache_load_or_build:
  "(fs w (os_path_join (data_path self) ''bm25.bin'') = Some (Pickle obj) \<longrightarrow>
      get_sparse_embedding self w =
        (Inr (self\<lparr>bm25 := Some obj\<rparr>),
         w\<lparr>trace := trace w @ [OpenRead (os_path_join (data_path self) ''bm25.bin'')]\<rparr>))
   \<and> (fs w (os_path_join (data_path self) ''bm25.bin'') = None
        \<and> BM25Plus (map (tokenize_fn self)
              (map (\<lambda>(title, text). title @ text) (zip (wiki_title self) (wiki_text self)))) = Inr bm \<longrightarrow>
      get_sparse_embedding self w =
        (Inr (self\<lparr>bm25 := Some (BM25 bm)\<rparr>),
         w\<lparr>fs := (fs w)(os_path_join (data_path self) ''bm25.bin'' \<mapsto> Pickle (BM25 bm)),
           trace := trace w
             @ map Tokenize (map (\<lambda>(title, text). title @ text) (zip (wiki_title self) (wiki_text self)))
             @ [OpenWrite (os_path_join (data_path self) ''bm25.bin''),
                Dump (os_path_join (data_path self) ''bm25.bin'') (BM25 bm)]\<rparr>))"
  by (simp add: get_sparse_embedding_def isfile_def pickle_load_def pickle_dump_def open_wb_def
      dump_def Let_def)

theorem index_cache_load_or_build_witness:
  "get_sparse_embedding ex_retriever empty_disk =
    (Inr ex_ready,
     \<lparr>fs = [''/opt/ml/input/data/bm25.bin'' \<mapsto> Pickle (BM25 ex_index)],
      trace = [Tokenize ''cats a cat sat'', Tokenize ''dogs a dog ran'',
               OpenWrite ''/opt/ml/input/data/bm25.bin'',
               Dump ''/opt/ml/input/data/bm25.bin'' (BM25 ex_index)]\<rparr>)
   \<and> get_sparse_embedding ex_retriever
        \<lparr>fs = [''/opt/ml/input/data/bm25.bin'' \<mapsto> Pickle (BM25 ex_index)], trace = []\<rparr> =
    (Inr ex_ready,
     \<lparr>fs = [''/opt/ml/input/data/bm25.bin'' \<mapsto> Pickle (BM25 ex_index)],
      trace = [OpenRead ''/opt/ml/input/data/bm25.bin'']\<rparr>)"
proof -
  have path: "os_path_join (data_path ex_retriever) ''bm25.bin'' = ''/opt/ml/input/data/bm25.bin''"
    by (simp add: os_path_join_def ex_retriever_def)
  have docs: "map (tokenize_fn ex_retriever)
        (map (\<lambda>(title, text). title @ text) (zip (wiki_title ex_retriever) (wiki_text ex_retriever)))
      = ex_corpus"
    using ex_tok by (simp add: ex_retriever_def)
  have miss: "fs empty_disk (os_path_join (data_path ex_retriever) ''bm25.bin'') = None"
    by (simp add: empty_disk_def)
  have hit: "fs \<lparr>fs = [''/opt/ml/input/data/bm25.bin'' \<mapsto> Pickle (BM25 ex_index)], trace = []\<rparr>
      (os_path_join (data_path ex_retriever) ''bm25.bin'') = Some (Pickle (BM25 ex_index))"
    by (simp add: path)
  have built: "BM25Plus (map (tokenize_fn ex_retriever)
        (map (\<lambda>(title, text). title @ text) (zip (wiki_title ex_retriever) (wiki_text ex_retriever))))
      = Inr ex_index"
    by (simp only: docs ex_build)
  have "get_sparse_embedding ex_retriever empty_disk =
    (Inr ex_ready,
     \<lparr>fs = [''/opt/ml/input/data/bm25.bin'' \<mapsto> Pickle (BM25 ex_index)],
      trace = [Tokenize ''cats a cat sat'', Tokenize ''dogs a dog ran'',
               OpenWrite ''/opt/ml/input/data/bm25.bin'',
               Dump ''/opt/ml/input/data/bm25.bin'' (BM25 ex_index)]\<rparr>)"
    using index_cache_load_or_build [of empty_disk ex_retriever _ ex_index] miss built
    by (simp add: path ex_ready_def) (simp add: ex_retriever_def empty_disk_def)
  moreover have "get_sparse_embedding ex_retriever
        \<lparr>fs = [''/opt/ml/input/data/bm25.bin'' \<mapsto> Pickle (BM25 ex_index)], trace = []\<rparr> =
    (Inr ex_ready,
     \<lparr>fs = [''/opt/ml/input/data/bm25.bin'' \<mapsto> Pickle (BM25 ex_index)],
      trace = [OpenRead ''/opt/ml/input/data/bm25.bin'']\<rparr>)"
    using index_cache_load_or_build
      [of "\<lparr>fs = [''/opt/ml/input/data/bm25.bin'' \<mapsto> Pickle (BM25 ex_index)], trace = []\<rparr>"
          ex_retriever "BM25 ex_index"] hit
    by (simp add: path ex_ready_def)
  ultimately show ?thesis by simp
qed

text \<open>
  The build of the example retriever writes to the cache path itself. A process that
  dies after the third event, between \<^verbatim>\<open>open\<close> and \<^verbatim>\<open>dump\<close>, leaves a file
  at the cache path that is no pickle, and the next call finds it and fails to load
  it.
\<close>

theorem index_cache_write_not_atomic:
  "trace (snd (get_sparse_embedding ex_retriever empty_disk)) =
      [Tokenize ''cats a cat sat'', Tokenize ''dogs a dog ran'',
       OpenWrite ''/opt/ml/input/data/bm25.bin'',
       Dump ''/opt/ml/input/data/bm25.bin'' (BM25 ex_index)]
   \<and> crash_after 3 (trace (snd (get_sparse_embedding ex_retriever empty_disk))) (fs empty_disk)
        ''/opt/ml/input/data/bm25.bin'' = Some Truncated
   \<and> fst (get_sparse_embedding ex_retriever
        \<lparr>fs = crash_after 3 (trace (snd (get_sparse_embedding ex_retriever empty_disk))) (fs empty_disk),
         trace = []\<rparr>) = Inl UnpicklingError"
proof -
  have run: "trace (snd (get_sparse_embedding ex_retriever empty_disk)) =
      [Tokenize ''cats a cat sat'', Tokenize ''dogs a dog ran'',
       OpenWrite ''/opt/ml/input/data/bm25.bin'',
       Dump ''/opt/ml/input/data/bm25.bin'' (BM25 ex_index)]"
    by (simp add: ex_get_sparse_embedding)
  have crash: "crash_after 3
      [Tokenize ''cats a cat sat'', Tokenize ''dogs a dog ran'',
       OpenWrite ''/opt/ml/input/data/bm25.bin'',
       Dump ''/opt/ml/input/data/bm25.bin'' (BM25 ex_index)] (fs empty_disk)
      = [''/opt/ml/input/data/bm25.bin'' \<mapsto> Truncated]"
    by (simp add: crash_after_def empty_disk_def eval_nat_numeral)
  have again: "fst (get_sparse_embedding ex_retriever
        \<lparr>fs = [''/opt/ml/input/data/bm25.bin'' \<mapsto> Truncated], trace = []\<rparr>) = Inl UnpicklingError"
    by (simp add: get_sparse_embedding_def ex_retriever_def os_path_join_def isfile_def
        pickle_load_def Let_def)
  show ?thesis unfolding run crash using again by simp
qed

section \<open>Batch retrieval\<close>

text \<open>
  C9. When both cache files exist, \<^verbatim>\<open>get_relevant_doc_bulk\<close> does the same
  whatever the queries, \<open>k\<close>, the tokenizer and the index are; when both files hold
  pickles it returns exactly the two unpickled objects; and all it does to the outside
  is to read the two files: no tokenizer call, no call of \<^verbatim>\<open>get_scores\<close>.
\<close>

theorem bulk_cache_hit_ignores_queries:
  assumes "isfile w (os_path_join (data_path self) ''BM25_score.bin'')"
    and "isfile w (os_path_join (data_path self) ''BM25_indice.bin'')"
  shows "get_relevant_doc_bulk self w queries k
      = get_relevant_doc_bulk (self\<lparr>tokenize_fn := f, bm25 := ix\<rparr>) w queries' k'
    \<and> (\<forall>s i. fs w (os_path_join (data_path self) ''BM25_score.bin'') = Some (Pickle s)
            \<and> fs w (os_path_join (data_path self) ''BM25_indice.bin'') = Some (Pickle i) \<longrightarrow>
          get_relevant_doc_bulk self w queries k =
            (Inr (s, i),
             w\<lparr>trace := trace w @ [OpenRead (os_path_join (data_path self) ''BM25_score.bin''),
                                   OpenRead (os_path_join (data_path self) ''BM25_indice.bin'')]\<rparr>))
    \<and> (\<exists>es. trace (snd (get_relevant_doc_bulk self w queries k)) = trace w @ es
          \<and> set es \<subseteq> {OpenRead (os_path_join (data_path self) ''BM25_score.bin''),
                       OpenRead (os_path_join (data_path self) ''BM25_indice.bin'')})"
proof -
  have indep: "get_relevant_doc_bulk self w queries k
      = get_relevant_doc_bulk (self\<lparr>tokenize_fn := f, bm25 := ix\<rparr>) w queries' k'"
    using assms by (simp add: get_relevant_doc_bulk_def Let_def)
  have cached: "get_relevant_doc_bulk self w queries k =
            (Inr (s, i),
             w\<lparr>trace := trace w @ [OpenRead (os_path_join (data_path self) ''BM25_score.bin''),
                                   OpenRead (os_path_join (data_path self) ''BM25_indice.bin'')]\<rparr>)"
    if "fs w (os_path_join (data_path self) ''BM25_score.bin'') = Some (Pickle s)"
      and "fs w (os_path_join (data_path self) ''BM25_indice.bin'') = Some (Pickle i)" for s i
    using that by (simp add: get_relevant_doc_bulk_def Let_def isfile_def pickle_load_def)
  have events: "\<exists>es. trace (snd (get_relevant_doc_bulk self w queries k)) = trace w @ es
          \<and> set es \<subseteq> {OpenRead (os_path_join (data_path self) ''BM25_score.bin''),
                       OpenRead (os_path_join (data_path self) ''BM25_indice.bin'')}"
    using assms
    by (auto simp: get_relevant_doc_bulk_def Let_def isfile_def pickle_load_def
        split: option.splits file_content.splits)
  show ?thesis using indep cached events by blast
qed

theorem bulk_cache_hit_ignores_queries_witness:
  "isfile ex_cached_disk (os_path_join (data_path ex_ready) ''BM25_score.bin'')
   \<and> isfile ex_cached_disk (os_path_join (data_path ex_ready) ''BM25_indice.bin'')
   \<and> get_relevant_doc_bulk ex_ready ex_cached_disk [Str ''cat'' :: unit pyval] 1 =
       (Inr (ScoreArrays [[5]], IndexArrays [[1]]),
        ex_cached_disk\<lparr>trace := [OpenRead ''/opt/ml/input/data/BM25_score.bin'',
                                  OpenRead ''/opt/ml/input/data/BM25_indice.bin'']\<rparr>)
   \<and> get_relevant_doc_bulk ex_ready ex_cached_disk [Str ''cat'' :: unit pyval] 1 =
       get_relevant_doc_bulk (ex_ready\<lparr>tokenize_fn := str_iter, bm25 := None\<rparr>) ex_cached_disk
         [Str ''dog'', Str ''xyz''] 7"
proof -
  have sp: "os_path_join (data_path ex_ready) ''BM25_score.bin'' = ''/opt/ml/input/data/BM25_score.bin''"
    and ip: "os_path_join (data_path ex_ready) ''BM25_indice.bin'' = ''/opt/ml/input/data/BM25_indice.bin''"
    by (simp_all add: os_path_join_def ex_ready_def ex_retriever_def)
  have a: "isfile ex_cached_disk (os_path_join (data_path ex_ready) ''BM25_score.bin'')"
    unfolding sp by (simp add: isfile_def ex_cached_disk_def)
  have b: "isfile ex_cached_disk (os_path_join (data_path ex_ready) ''BM25_indice.bin'')"
    unfolding ip by (simp add: isfile_def ex_cached_disk_def)
  note t = bulk_cache_hit_ignores_queries [OF a b, where queries = "[Str ''cat'' :: unit pyval]"
      and k = 1 and f = str_iter and ix = None and queries' = "[Str ''dog'', Str ''xyz'']" and k' = 7]
  have s: "fs ex_cached_disk (os_path_join (data_path ex_ready) ''BM25_score.bin'')
      = Some (Pickle (ScoreArrays [[5]]))"
    unfolding sp by (simp add: ex_cached_disk_def)
  have i: "fs ex_cached_disk (os_path_join (data_path ex_ready) ''BM25_indice.bin'')
      = Some (Pickle (IndexArrays [[1]]))"
    unfolding ip by (simp add: ex_cached_disk_def)
  have "get_relevant_doc_bulk ex_ready ex_cached_disk [Str ''cat'' :: unit pyval] 1 =
       (Inr (ScoreArrays [[5]], IndexArrays [[1]]),
        ex_cached_disk\<lparr>trace := trace ex_cached_disk @
           [OpenRead (os_path_join (data_path ex_ready) ''BM25_score.bin''),
            OpenRead (os_path_join (data_path ex_ready) ''BM25_indice.bin'')]\<rparr>)"
    using t s i by blast
  then have "get_relevant_doc_bulk ex_ready ex_cached_disk [Str ''cat'' :: unit pyval] 1 =
       (Inr (ScoreArrays [[5]], IndexArrays [[1]]),
        ex_cached_disk\<lparr>trace := [OpenRead ''/opt/ml/input/data/BM25_score.bin'',
                                  OpenRead ''/opt/ml/input/data/BM25_indice.bin'']\<rparr>)"
    unfolding sp ip by (simp add: ex_cached_disk_def)
  moreover have "get_relevant_doc_bulk ex_ready ex_cached_disk [Str ''cat'' :: unit pyval] 1 =
       get_relevant_doc_bulk (ex_ready\<lparr>tokenize_fn := str_iter, bm25 := None\<rparr>) ex_cached_disk
         [Str ''dog'', Str ''xyz''] 7"
    using t by blast
  ultimately show ?thesis using a b by blast
qed

text \<open>What \<^verbatim>\<open>retrieve\<close> puts into the output record of one example.\<close>

lemma make_record_fields:
  assumes "make_record self ds doc_indices idx example = Inr tmp"
  shows "tmp ''question'' = Some (example ''question'')
    \<and> tmp ''id'' = Some (example ''id'')
    \<and> tmp ''original_context'' =
        (if ''context'' \<in> set (column_names ds) \<and> ''answers'' \<in> set (column_names ds)
         then Some (example ''context'') else None)
    \<and> tmp ''answers'' =
        (if ''context'' \<in> set (column_names ds) \<and> ''answers'' \<in> set (column_names ds)
         then Some (example ''answers'') else None)"
  using assms
  by (auto simp: make_record_def example_get_def Let_def split: sum.splits if_splits)

lemma make_records_nth:
  assumes "make_records self ds doc_indices idx examples = Inr records"
  shows "length records = length examples
    \<and> (\<forall>i < length examples.
          make_record self ds doc_indices (idx + int i) (examples ! i) = Inr (records ! i))"
  using assms
proof (induction examples arbitrary: idx records)
  case Nil
  then show ?case by simp
next
  case (Cons example examples)
  from Cons.prems obtain tmp rest where
    tmp: "make_record self ds doc_indices idx example = Inr tmp"
    and rest: "make_records self ds doc_indices (idx + 1) examples = Inr rest"
    and records: "records = tmp # rest"
    by (auto split: sum.splits)
  have ih: "length rest = length examples
    \<and> (\<forall>i < length examples.
          make_record self ds doc_indices (idx + 1 + int i) (examples ! i) = Inr (rest ! i))"
    by (rule Cons.IH [OF rest])
  have "make_record self ds doc_indices (idx + int i) ((example # examples) ! i) = Inr (records ! i)"
    if "i < length (example # examples)" for i
  proof (cases i)
    case 0
    then show ?thesis using tmp records by simp
  next
    case (Suc j)
    then have "j < length examples" using that by simp
    then have "make_record self ds doc_indices (idx + 1 + int j) (examples ! j) = Inr (rest ! j)"
      using ih by blast
    then show ?thesis using Suc records by (simp add: algebra_simps)
  qed
  then show ?case using ih records by simp
qed

text \<open>
  C8, as the code has it. When batch retrieval returns its data frame, there is one
  output record per example, in order. Its \<^verbatim>\<open>question\<close> and \<^verbatim>\<open>id\<close> are
  those of the example. \<^verbatim>\<open>original_context\<close> and \<^verbatim>\<open>answers\<close> are present
  exactly when the dataset has both a \<^verbatim>\<open>context\<close> and an \<^verbatim>\<open>answers\<close>
  column (line 129 tests both at once), and then they are the example's
  \<^verbatim>\<open>context\<close> and \<^verbatim>\<open>answers\<close>, unchanged.
\<close>

theorem batch_ground_truth_passthrough:
  assumes "fst (retrieve self w (Queries ds) topk) = Inr (DataFrame records)"
  shows "length records = length (rows ds)
    \<and> (\<forall>i < length (rows ds).
          (records ! i) ''question'' = Some ((rows ds ! i) ''question'')
        \<and> (records ! i) ''id'' = Some ((rows ds ! i) ''id'')
        \<and> (records ! i) ''original_context'' =
            (if ''context'' \<in> set (column_names ds) \<and> ''answers'' \<in> set (column_names ds)
             then Some ((rows ds ! i) ''context'') else None)
        \<and> (records ! i) ''answers'' =
            (if ''context'' \<in> set (column_names ds) \<and> ''answers'' \<in> set (column_names ds)
             then Some ((rows ds ! i) ''answers'') else None))"
proof -
  from assms obtain doc_indices where
    made: "make_records self ds doc_indices 0 (rows ds) = Inr records"
    by (auto simp: retrieve_def split: if_splits sum.splits prod.splits)
  have len: "length records = length (rows ds)"
    and each: "\<forall>i < length (rows ds).
          make_record self ds doc_indices (0 + int i) (rows ds ! i) = Inr (records ! i)"
    using make_records_nth [OF made] by simp_all
  show ?thesis
    using len each make_record_fields by blast
qed

text \<open>Batch retrieval of the one question \<^verbatim>\<open>cat\<close> on the example index, without cache.\<close>

lemma ex_bulk_cat:
  "get_relevant_doc_bulk ex_ready empty_disk [Str ''cat'' :: nat pyval] 1 =
     (Inr (ScoreArrays [[2 * ln 3]], IndexArrays [[0]]),
      \<lparr>fs = [''/opt/ml/input/data/BM25_score.bin'' \<mapsto> Pickle (ScoreArrays [[2 * ln 3]]),
             ''/opt/ml/input/data/BM25_indice.bin'' \<mapsto> Pickle (IndexArrays [[0]])],
       trace = [Tokenize ''cat'', GetScores [''cat''],
                OpenWrite ''/opt/ml/input/data/BM25_score.bin'',
                Dump ''/opt/ml/input/data/BM25_score.bin'' (ScoreArrays [[2 * ln 3]]),
                OpenWrite ''/opt/ml/input/data/BM25_indice.bin'',
                Dump ''/opt/ml/input/data/BM25_indice.bin'' (IndexArrays [[0]])]\<rparr>)"
  by (simp add: get_relevant_doc_bulk_def isfile_def empty_disk_def ex_ready_def ex_retriever_def
        whitespace_split_def bm25_get_scores_def ex_scores_cat os_path_join_def
        pickle_dump_def open_wb_def dump_def
        top_k_def np_sort_def np_argsort_def py_slice_to_def Let_def)

theorem batch_ground_truth_passthrough_witness:
  "fst (retrieve ex_ready empty_disk (Queries ex_validation) 1) = Inr (DataFrame [ex_validation_record])
   \<and> length [ex_validation_record] = length (rows ex_validation)
   \<and> ([ex_validation_record] ! 0) ''original_context'' = Some (ex_example ''context'')
   \<and> ([ex_validation_record] ! 0) ''answers'' = Some (ex_example ''answers'')
   \<and> ([ex_validation_record] ! 0) ''question'' = Some (ex_example ''question'')"
proof -
  have cols: "column_names ex_validation = [''id'', ''question'', ''context'', ''answers'']"
    and rws: "rows ex_validation = [ex_example]"
    by (simp_all add: ex_validation_def)
  have q: "dataset_column ex_validation ''question'' = Inr [Str ''cat'']"
    by (simp add: dataset_column_def cols rws ex_example_def)
  have r: "make_record ex_ready ex_validation (IndexArrays [[0]]) 0 ex_example =
      Inr ex_validation_record"
    by (simp add: make_record_def example_get_def cols ex_example_def doc_indices_at_def
        py_index_def context_passages_def ex_ready_def ex_retriever_def Let_def
        ex_validation_record_def)
  have b: "bm25 ex_ready \<noteq> None" by (simp add: ex_ready_def)
  have h: "fst (retrieve ex_ready empty_disk (Queries ex_validation) 1)
      = Inr (DataFrame [ex_validation_record])"
    using b by (simp add: retrieve_def q ex_bulk_cat r rws cols)
  note t = batch_ground_truth_passthrough [OF h]
  have "([ex_validation_record] ! 0) ''original_context'' = Some (ex_example ''context'')
     \<and> ([ex_validation_record] ! 0) ''answers'' = Some (ex_example ''answers'')
     \<and> ([ex_validation_record] ! 0) ''question'' = Some (ex_example ''question'')"
    using t by (simp add: rws cols)
  moreover have "length [ex_validation_record] = length (rows ex_validation)"
    using t by blast
  ultimately show ?thesis using h by blast
qed

text \<open>
  A dataset with a \<^verbatim>\<open>context\<close> column and no \<^verbatim>\<open>answers\<close> column: the output
  record has no \<^verbatim>\<open>original_context\<close>, although the example carries a context.
\<close>

theorem context_without_answers_is_dropped:
  "''context'' \<in> set (column_names ex_context_only)
   \<and> fst (retrieve ex_ready empty_disk (Queries ex_context_only) 1) =
       Inr (DataFrame [[''question'' \<mapsto> Str ''cat'', ''id'' \<mapsto> Opaque 7,
                        ''context_id'' \<mapsto> IntArray [0], ''context'' \<mapsto> Str ''a cat sat'']])"
proof -
  have cols: "column_names ex_context_only = [''id'', ''question'', ''context'']"
    and rws: "rows ex_context_only = [ex_example]"
    by (simp_all add: ex_context_only_def)
  have q: "dataset_column ex_context_only ''question'' = Inr [Str ''cat'']"
    by (simp add: dataset_column_def cols rws ex_example_def)
  have r: "make_record ex_ready ex_context_only (IndexArrays [[0]]) 0 ex_example =
      Inr [''question'' \<mapsto> Str ''cat'', ''id'' \<mapsto> Opaque 7,
           ''context_id'' \<mapsto> IntArray [0], ''context'' \<mapsto> Str ''a cat sat'']"
    by (simp add: make_record_def example_get_def cols ex_example_def doc_indices_at_def
        py_index_def context_passages_def ex_ready_def ex_retriever_def Let_def)
  have b: "bm25 ex_ready \<noteq> None" by (simp add: ex_ready_def)
  show ?thesis
    using b by (simp add: retrieve_def q ex_bulk_cat r rws cols)
qed

end
